theory Spec2Isabelle
  imports Main "HOL-Library.Word"
begin

section \<open>The model container, as the script reads it\<close>

text \<open>
  The script \<^verbatim>\<open>Docker/scripts/get_onnx_info.py\<close> reads a deserialized ONNX model through
  the getters of the protobuf classes of the \<^verbatim>\<open>onnx\<close> package. The package is an external
  collaborator; the types below follow its schema as far as the script touches it, and
  keep enough of the remaining content (nodes, outputs, metadata, the names of the
  initializers) for statements about what the script ignores. The payload of a tensor is
  not kept.

  A dimension is a oneof: a fixed \<^verbatim>\<open>int64\<close> value, a symbolic name, or nothing.
\<close>

datatype Dimension = Dim_value "64 word" | Dim_param string | Dim_not_set

text \<open>The getter of an unset scalar field of a oneof returns the field's default, 0.\<close>

fun dim_value :: "Dimension \<Rightarrow> 64 word" where
  "dim_value (Dim_value v) = v"
| "dim_value (Dim_param s) = 0"
| "dim_value Dim_not_set = 0"

record TensorShapeProto =
  dim :: "Dimension list"

record Tensor =
  elem_type :: "32 word"
  shape_field :: "TensorShapeProto option"

text \<open>The getter of an unset message field returns an empty message.\<close>

definition shape :: "Tensor \<Rightarrow> TensorShapeProto" where
  "shape t = (case shape_field t of None \<Rightarrow> \<lparr>dim = []\<rparr> | Some s \<Rightarrow> s)"

datatype TypeProto =
    Tensor_type Tensor
  | Sequence_type TypeProto
  | Map_type "32 word" TypeProto
  | Optional_type TypeProto
  | Sparse_tensor_type Tensor
  | Type_not_set

fun tensor_type :: "TypeProto \<Rightarrow> Tensor" where
  "tensor_type (Tensor_type t) = t"
| "tensor_type (Sequence_type e) = \<lparr>elem_type = 0, shape_field = None\<rparr>"
| "tensor_type (Map_type k v) = \<lparr>elem_type = 0, shape_field = None\<rparr>"
| "tensor_type (Optional_type e) = \<lparr>elem_type = 0, shape_field = None\<rparr>"
| "tensor_type (Sparse_tensor_type t) = \<lparr>elem_type = 0, shape_field = None\<rparr>"
| "tensor_type Type_not_set = \<lparr>elem_type = 0, shape_field = None\<rparr>"

record ValueInfoProto =
  name :: string
  type_field :: "TypeProto option"
  doc_string :: string

definition type :: "ValueInfoProto \<Rightarrow> TypeProto" where
  "type v = (case type_field v of None \<Rightarrow> Type_not_set | Some t \<Rightarrow> t)"

record NodeProto =
  op_type :: string
  node_input :: "string list"
  node_output :: "string list"

record GraphProto =
  node :: "NodeProto list"
  graph_name :: string
  initializer :: "string list"
  input :: "ValueInfoProto list"
  graph_output :: "ValueInfoProto list"

record ModelProto =
  ir_version :: "64 word"
  producer_name :: string
  graph_field :: "GraphProto option"

definition graph :: "ModelProto \<Rightarrow> GraphProto" where
  "graph m = (case graph_field m of
      None \<Rightarrow> \<lparr>node = [], graph_name = [], initializer = [], input = [], graph_output = []\<rparr>
    | Some g \<Rightarrow> g)"

section \<open>Python's text of an integer and of a list\<close>

definition digit :: "nat \<Rightarrow> char" where
  "digit d = ''0123456789'' ! d"

function str_nat :: "nat \<Rightarrow> string" where
  "str_nat n = (if n < 10 then [digit n] else str_nat (n div 10) @ [digit (n mod 10)])"
  by pat_completeness auto
termination
  by (relation "measure (\<lambda>n. n)") auto

declare str_nat.simps [simp del]

text \<open>\<^verbatim>\<open>repr\<close> of a Python \<^verbatim>\<open>int\<close>: decimal digits, with a minus sign below zero.\<close>

definition str_int :: "int \<Rightarrow> string" where
  "str_int i = (if i < 0 then CHR ''-'' # str_nat (nat (- i)) else str_nat (nat i))"

text \<open>\<^verbatim>\<open>sep.join(xs)\<close>.\<close>

fun join :: "string \<Rightarrow> string list \<Rightarrow> string" where
  "join sep [] = []"
| "join sep [x] = x"
| "join sep (x # y # ys) = x @ sep @ join sep (y # ys)"

text \<open>\<^verbatim>\<open>str\<close> of a list of integers, which is what the f-string inserts for \<^verbatim>\<open>{shape}\<close>.\<close>

definition str_list :: "int list \<Rightarrow> string" where
  "str_list xs = ''['' @ join '', '' (map str_int xs) @ '']''"

section \<open>The process: files, standard streams, the script's variable\<close>

type_synonym path = string

datatype entry = Regular "8 word list" | Unreadable

datatype exn =
    FileNotFoundError path
  | PermissionError path
  | DecodeError path
  | ExternalDataError path

datatype diagnostic = Usage_error string | Traceback exn

text \<open>
  The state a run works on: the files it can see, the text written so far on the two
  standard streams, the script's global \<^verbatim>\<open>model\<close>, and everything else the process could
  reach (network, other persistent state) as \<open>world\<close>.
\<close>

record 'w state =
  files :: "path \<rightharpoonup> entry"
  stdout :: string
  stderr :: "diagnostic list"
  model :: "ModelProto option"
  world :: 'w

definition LF :: char where
  "LF = CHR 0x0A"

text \<open>
  \<^verbatim>\<open>print(res)\<close> writes the text and a line feed to standard output. Text is kept as the
  bytes of its UTF-8 encoding, which is what the stream receives, and the write is taken
  to succeed.
\<close>

definition print :: "string \<Rightarrow> 'w state \<Rightarrow> 'w state" where
  "print s st = st\<lparr>stdout := stdout st @ s @ [LF]\<rparr>"

section \<open>The script\<close>

text \<open>
  \<^verbatim>\<open>parser.parse_args()\<close> for a parser with the one positional \<^verbatim>\<open>onnxfile\<close>: it returns the
  namespace, or writes and leaves the process with a status. Argument lists without
  option-like strings are decided here as \<^verbatim>\<open>argparse\<close> decides them; what it does with
  strings that start with a dash (help, abbreviations, unknown options) is left to the
  library as the parameter \<open>argparse\<close>.
\<close>

datatype parse_result = Namespace string | Parser_exit nat string "diagnostic list"

definition option_like :: "string \<Rightarrow> bool" where
  "option_like a = (case a of [] \<Rightarrow> False | c # cs \<Rightarrow> c = CHR ''-'')"

definition parse_args :: "(string list \<Rightarrow> parse_result) \<Rightarrow> string list \<Rightarrow> parse_result" where
  "parse_args argparse argv =
     (if list_ex option_like argv then argparse argv
      else case argv of
          [] \<Rightarrow> Parser_exit 2 [] [Usage_error ''the following arguments are required: onnxfile'']
        | [a] \<Rightarrow> Namespace a
        | a # b # bs \<Rightarrow> Parser_exit 2 [] [Usage_error (''unrecognized arguments: '' @ join '' '' (b # bs))])"

text \<open>
  \<^verbatim>\<open>onnx.load(path)\<close> works in three steps: it reads the bytes of the file; it decodes
  them, in the format that the extension of the path selects; and, as it is called here
  with \<^verbatim>\<open>load_external_data\<close> left at its default, it then opens every file in which a
  tensor of the message keeps its data, found from the directory of the path.

  What the library computes without touching a file is the parameter \<open>decode\<close>: given the
  path and the bytes, it answers \<open>None\<close> when the bytes are not a model container in the
  format of that path, and otherwise the message together with the paths of the external
  data files it will open, in the order it opens them.
\<close>

type_synonym decoder = "path \<Rightarrow> 8 word list \<Rightarrow> (ModelProto \<times> path list) option"

text \<open>
  Opening the external data files: the first one that is missing or cannot be read stops
  the load with the library's error for it.
\<close>

fun load_external_data :: "(path \<rightharpoonup> entry) \<Rightarrow> path list \<Rightarrow> exn option" where
  "load_external_data fs [] = None"
| "load_external_data fs (q # qs) =
     (case fs q of
        None \<Rightarrow> Some (ExternalDataError q)
      | Some Unreadable \<Rightarrow> Some (ExternalDataError q)
      | Some (Regular bs) \<Rightarrow> load_external_data fs qs)"

definition onnx_load :: "decoder \<Rightarrow> (path \<rightharpoonup> entry) \<Rightarrow> path \<Rightarrow> exn + ModelProto" where
  "onnx_load decode fs p =
     (case fs p of
        None \<Rightarrow> Inl (FileNotFoundError p)
      | Some Unreadable \<Rightarrow> Inl (PermissionError p)
      | Some (Regular bs) \<Rightarrow>
          (case decode p bs of
             None \<Rightarrow> Inl (DecodeError p)
           | Some (m, ext) \<Rightarrow>
               (case load_external_data fs ext of Some e \<Rightarrow> Inl e | None \<Rightarrow> Inr m)))"

text \<open>The files that a load of the path opens: the model file and its external data files.\<close>

definition files_read :: "decoder \<Rightarrow> (path \<rightharpoonup> entry) \<Rightarrow> path \<Rightarrow> path list" where
  "files_read decode fs p =
     p # (case fs p of
            None \<Rightarrow> []
          | Some Unreadable \<Rightarrow> []
          | Some (Regular bs) \<Rightarrow> (case decode p bs of None \<Rightarrow> [] | Some (m, ext) \<Rightarrow> ext))"

text \<open>The list comprehension \<^verbatim>\<open>[int(dim.dim_value) for dim in input.type.tensor_type.shape.dim]\<close>.\<close>

definition shape_of :: "ValueInfoProto \<Rightarrow> int list" where
  "shape_of inp = map (\<lambda>d. sint (dim_value d)) (dim (shape (tensor_type (type inp))))"

text \<open>The f-string \<^verbatim>\<open>f"-d {input_name} {shape}"\<close>.\<close>

definition res :: "ValueInfoProto \<Rightarrow> string" where
  "res inp = ''-d '' @ name inp @ '' '' @ str_list (shape_of inp)"

text \<open>The loop \<^verbatim>\<open>for input in model.graph.input: ... print(res)\<close>.\<close>

fun print_inputs :: "ValueInfoProto list \<Rightarrow> 'w state \<Rightarrow> 'w state" where
  "print_inputs [] st = st"
| "print_inputs (inp # inps) st = print_inputs inps (print (res inp) st)"

text \<open>
  The whole script, from the argument list to the exit status and the final state. A
  \<^verbatim>\<open>SystemExit\<close> of the parser carries its status; an exception of the load is not caught,
  so the interpreter writes its traceback on standard error and the status is 1.
\<close>

definition main ::
  "decoder \<Rightarrow> (string list \<Rightarrow> parse_result) \<Rightarrow> string list \<Rightarrow> 'w state \<Rightarrow> nat \<times> 'w state" where
  "main decode argparse argv st =
     (case parse_args argparse argv of
        Parser_exit status out err \<Rightarrow>
          (status, st\<lparr>stdout := stdout st @ out, stderr := stderr st @ err\<rparr>)
      | Namespace onnxfile \<Rightarrow>
          (case onnx_load decode (files st) onnxfile of
             Inl e \<Rightarrow> (1, st\<lparr>stderr := stderr st @ [Traceback e]\<rparr>)
           | Inr m \<Rightarrow> (0, print_inputs (input (graph m)) (st\<lparr>model := Some m\<rparr>))))"

text \<open>A process starts with nothing written and no variable bound.\<close>

definition start :: "(path \<rightharpoonup> entry) \<Rightarrow> 'w \<Rightarrow> 'w state" where
  "start fs w = \<lparr>files = fs, stdout = [], stderr = [], model = None, world = w\<rparr>"

definition run ::
  "decoder \<Rightarrow> (string list \<Rightarrow> parse_result) \<Rightarrow> string list \<Rightarrow> (path \<rightharpoonup> entry) \<Rightarrow> 'w
     \<Rightarrow> nat \<times> 'w state" where
  "run decode argparse argv fs w = main decode argparse argv (start fs w)"

section \<open>What the specification says about the output\<close>

text \<open>
  The lines of a text stream: the pieces between line feeds, a last piece without a line
  feed counting when it is not empty.
\<close>

fun text_lines :: "string \<Rightarrow> string list" where
  "text_lines [] = []"
| "text_lines (c # cs) =
     (if c = LF then [] # text_lines cs
      else (case text_lines cs of [] \<Rightarrow> [[c]] | l # ls \<Rightarrow> (c # l) # ls))"

text \<open>
  The specification's pattern for a line, \<^verbatim>\<open>-d <name> [<int>(, <int>)*]\<close>, as a recogniser.
  An \<^verbatim>\<open><int>\<close> is a run of decimal digits with an optional minus sign before it.
\<close>

definition is_digit :: "char \<Rightarrow> bool" where
  "is_digit c = (c \<in> set ''0123456789'')"

definition is_int_text :: "string \<Rightarrow> bool" where
  "is_int_text s =
     (case s of
        [] \<Rightarrow> False
      | c # cs \<Rightarrow> if c = CHR ''-'' then cs \<noteq> [] \<and> list_all is_digit cs
                 else list_all is_digit (c # cs))"

text \<open>The pieces of a text between the separators \<^verbatim>\<open>", "\<close>.\<close>

fun split_comma :: "string \<Rightarrow> string list" where
  "split_comma [] = [[]]"
| "split_comma [c] = [[c]]"
| "split_comma (c # d # cs) =
     (if c = CHR '','' \<and> d = CHR '' '' then [] # split_comma cs
      else (case split_comma (d # cs) of [] \<Rightarrow> [[c]] | x # xs \<Rightarrow> (c # x) # xs))"

text \<open>\<^verbatim>\<open><int>(, <int>)*\<close>: one integer or more.\<close>

definition int_seq :: "string \<Rightarrow> bool" where
  "int_seq body = list_all is_int_text (split_comma body)"

text \<open>The pattern as the specification writes it, for the line of the input called \<open>nm\<close>.\<close>

definition matches_pattern :: "string \<Rightarrow> string \<Rightarrow> bool" where
  "matches_pattern nm line =
     (let pre = ''-d '' @ nm @ '' [''
      in length pre < length line \<and> take (length pre) line = pre \<and> last line = CHR '']'' \<and>
         int_seq (butlast (drop (length pre) line)))"

text \<open>The same pattern with the integers optional: \<^verbatim>\<open>-d <name> [(<int>(, <int>)*)?]\<close>.\<close>

definition matches_pattern_opt :: "string \<Rightarrow> string \<Rightarrow> bool" where
  "matches_pattern_opt nm line =
     (let pre = ''-d '' @ nm @ '' [''
      in length pre < length line \<and> take (length pre) line = pre \<and> last line = CHR '']'' \<and>
         (butlast (drop (length pre) line) = [] \<or> int_seq (butlast (drop (length pre) line))))"

text \<open>
  Reading a line back: the value of a decimal text, and the integers between the brackets
  of the line of the input called \<open>nm\<close>.
\<close>

definition digit_val :: "char \<Rightarrow> nat" where
  "digit_val c = of_char c - 48"

definition nat_of_text :: "string \<Rightarrow> nat" where
  "nat_of_text s = foldl (\<lambda>a c. 10 * a + digit_val c) 0 s"

definition int_of_text :: "string \<Rightarrow> int" where
  "int_of_text s =
     (case s of
        [] \<Rightarrow> 0
      | c # cs \<Rightarrow> if c = CHR ''-'' then - int (nat_of_text cs) else int (nat_of_text (c # cs)))"

definition line_integers :: "string \<Rightarrow> string \<Rightarrow> int list" where
  "line_integers nm line =
     (let body = butlast (drop (length (''-d '' @ nm @ '' ['')) line)
      in if body = [] then [] else map int_of_text (split_comma body))"

text \<open>Two graph inputs that agree on the name and on every dimension's integer value.\<close>

definition same_name_and_dims :: "ValueInfoProto \<Rightarrow> ValueInfoProto \<Rightarrow> bool" where
  "same_name_and_dims a b =
     (name a = name b \<and>
      list_all2 (\<lambda>d e. sint (dim_value d) = sint (dim_value e))
        (dim (shape (tensor_type (type a)))) (dim (shape (tensor_type (type b)))))"

section \<open>Concrete models and files\<close>

definition tensor_input :: "string \<Rightarrow> Dimension list \<Rightarrow> ValueInfoProto" where
  "tensor_input nm ds =
     \<lparr>name = nm,
      type_field = Some (Tensor_type \<lparr>elem_type = 1, shape_field = Some \<lparr>dim = ds\<rparr>\<rparr>),
      doc_string = []\<rparr>"

definition image_input :: ValueInfoProto where
  "image_input = tensor_input ''input'' [Dim_value 1, Dim_value 3, Dim_value 224, Dim_value 224]"

definition mask_input :: ValueInfoProto where
  "mask_input = tensor_input ''mask'' [Dim_param ''batch'', Dim_value 7, Dim_not_set]"

definition scalar_input :: ValueInfoProto where
  "scalar_input = tensor_input ''x'' []"

definition two_line_input :: ValueInfoProto where
  "two_line_input = tensor_input (''a'' @ [LF] @ ''b'') [Dim_value 1]"

definition model_with :: "string \<Rightarrow> ValueInfoProto list \<Rightarrow> ModelProto" where
  "model_with producer inps =
     \<lparr>ir_version = 8, producer_name = producer,
      graph_field = Some \<lparr>node = [], graph_name = ''main'', initializer = [], input = inps,
                          graph_output = []\<rparr>\<rparr>"

text \<open>
  A decoder for the examples: the one byte of the file selects the model. The model of
  byte 6 keeps tensor data in the file \<^verbatim>\<open>w.bin\<close>; the others keep none outside.
\<close>

definition demo_decode :: decoder where
  "demo_decode p bs =
     (if bs = [1] then Some (model_with ''demo'' [image_input, mask_input], [])
      else if bs = [2] then Some (model_with ''demo'' [], [])
      else if bs = [3] then Some (model_with ''demo'' [scalar_input], [])
      else if bs = [4] then Some (model_with ''demo'' [two_line_input], [])
      else if bs = [5] then
        Some (model_with ''other''
               [tensor_input ''input'' [Dim_value 1, Dim_value 3, Dim_value 224, Dim_value 224],
                tensor_input ''mask'' [Dim_not_set, Dim_value 7, Dim_param ''n'']], [])
      else if bs = [6] then Some (model_with ''demo'' [image_input], [''w.bin''])
      else None)"

definition demo_files :: "path \<rightharpoonup> entry" where
  "demo_files =
     [''m.onnx'' \<mapsto> Regular [1], ''empty.onnx'' \<mapsto> Regular [2], ''scalar.onnx'' \<mapsto> Regular [3],
      ''odd.onnx'' \<mapsto> Regular [4], ''m2.onnx'' \<mapsto> Regular [5], ''ext.onnx'' \<mapsto> Regular [6],
      ''junk.onnx'' \<mapsto> Regular [255], ''locked.onnx'' \<mapsto> Unreadable]"

text \<open>A stand-in for the library's treatment of option-like arguments.\<close>

definition demo_argparse :: "string list \<Rightarrow> parse_result" where
  "demo_argparse argv = Parser_exit 2 [] [Usage_error ''unrecognized arguments'']"

section \<open>The loop and the two ways a run ends\<close>

lemma print_inputs_closed:
  "print_inputs inps st = st\<lparr>stdout := stdout st @ concat (map (\<lambda>i. res i @ [LF]) inps)\<rparr>"
  by (induction inps arbitrary: st) (simp_all add: print_def)

lemma main_success:
  assumes "parse_args argparse argv = Namespace p"
    and "onnx_load decode (files st) p = Inr m"
  shows "main decode argparse argv st =
    (0, st\<lparr>model := Some m,
            stdout := stdout st @ concat (map (\<lambda>i. res i @ [LF]) (input (graph m)))\<rparr>)"
  using assms by (simp add: main_def print_inputs_closed)

lemma main_load_failure:
  assumes "parse_args argparse argv = Namespace p"
    and "onnx_load decode (files st) p = Inl e"
  shows "main decode argparse argv st = (1, st\<lparr>stderr := stderr st @ [Traceback e]\<rparr>)"
  using assms by (simp add: main_def)

lemma run_success:
  assumes "parse_args argparse argv = Namespace p"
    and "onnx_load decode fs p = Inr m"
  shows "run decode argparse argv fs w =
    (0, \<lparr>files = fs, stdout = concat (map (\<lambda>i. res i @ [LF]) (input (graph m))),
         stderr = [], model = Some m, world = w\<rparr>)"
  using assms by (simp add: run_def start_def main_success)

lemma run_load_failure:
  assumes "parse_args argparse argv = Namespace p"
    and "onnx_load decode fs p = Inl e"
  shows "run decode argparse argv fs w =
    (1, \<lparr>files = fs, stdout = [], stderr = [Traceback e], model = None, world = w\<rparr>)"
  using assms by (simp add: run_def start_def main_load_failure)

lemma parse_args_single:
  "\<not> option_like a \<Longrightarrow> parse_args argparse [a] = Namespace a"
  by (simp add: parse_args_def)

section \<open>Lines of the output stream\<close>

lemma text_lines_append:
  "LF \<notin> set l \<Longrightarrow> text_lines (l @ LF # rest) = l # text_lines rest"
  by (induction l) auto

lemma text_lines_records:
  "list_all (\<lambda>l. LF \<notin> set l) ls \<Longrightarrow> text_lines (concat (map (\<lambda>l. l @ [LF]) ls)) = ls"
  by (induction ls) (simp_all add: text_lines_append)

section \<open>The text of integers\<close>

lemma digit_is_digit: "d < 10 \<Longrightarrow> is_digit (digit d)"
proof -
  assume "d < 10"
  then have "d \<in> {0, 1, 2, 3, 4, 5, 6, 7, 8, 9}" by auto
  then show ?thesis by (auto simp: digit_def is_digit_def)
qed

lemma str_nat_digits: "list_all is_digit (str_nat n)"
proof (induction n rule: str_nat.induct)
  case (1 n)
  show ?case
  proof (cases "n < 10")
    case True
    then show ?thesis by (subst str_nat.simps) (simp add: digit_is_digit)
  next
    case False
    with "1" show ?thesis by (subst str_nat.simps) (simp add: digit_is_digit)
  qed
qed

lemma str_nat_nonempty: "str_nat n \<noteq> []"
  by (subst str_nat.simps) simp

lemma is_digit_not_minus: "is_digit c \<Longrightarrow> c \<noteq> CHR ''-''"
  by (auto simp: is_digit_def)

lemma is_int_text_str_nat: "is_int_text (str_nat n)"
proof (cases "str_nat n")
  case Nil
  then show ?thesis by (simp add: str_nat_nonempty)
next
  case (Cons c cs)
  have all: "list_all is_digit (c # cs)"
    using str_nat_digits [of n] Cons by simp
  then have "c \<noteq> CHR ''-''" by (simp add: is_digit_not_minus)
  with all Cons show ?thesis by (simp add: is_int_text_def)
qed

lemma is_int_text_str_int: "is_int_text (str_int i)"
proof (cases "i < 0")
  case True
  then show ?thesis
    by (simp add: str_int_def is_int_text_def str_nat_nonempty str_nat_digits)
next
  case False
  then show ?thesis by (simp add: str_int_def is_int_text_str_nat)
qed

text \<open>The characters an integer's text cannot hold.\<close>

lemma str_nat_no_comma: "CHR '','' \<notin> set (str_nat n)"
proof
  assume "CHR '','' \<in> set (str_nat n)"
  then have "is_digit CHR '',''"
    using str_nat_digits [of n] by (simp add: list_all_iff)
  then show False by (simp add: is_digit_def)
qed

lemma str_nat_no_LF: "LF \<notin> set (str_nat n)"
proof
  assume "LF \<in> set (str_nat n)"
  then have "is_digit LF"
    using str_nat_digits [of n] by (simp add: list_all_iff)
  then show False by (simp add: is_digit_def LF_def)
qed

lemma str_int_no_comma: "CHR '','' \<notin> set (str_int i)"
  by (simp add: str_int_def str_nat_no_comma)

lemma str_int_no_LF: "LF \<notin> set (str_int i)"
proof -
  have "LF \<noteq> CHR ''-''" by (simp add: LF_def)
  then show ?thesis by (simp add: str_int_def str_nat_no_LF)
qed

section \<open>Splitting what join put together\<close>

lemma split_comma_plain: "CHR '','' \<notin> set t \<Longrightarrow> split_comma t = [t]"
  by (induction t rule: split_comma.induct) auto

lemma split_comma_append:
  "CHR '','' \<notin> set t \<Longrightarrow> split_comma (t @ '', '' @ rest) = t # split_comma rest"
proof (induction t)
  case Nil
  then show ?case by simp
next
  case (Cons c t)
  obtain d cs where dcs: "t @ '', '' @ rest = d # cs"
    by (cases "t @ '', '' @ rest") auto
  from Cons have "split_comma (d # cs) = t # split_comma rest"
    using dcs by simp
  moreover from Cons.prems have "c \<noteq> CHR '',''" by auto
  ultimately have "split_comma (c # d # cs) = (c # t) # split_comma rest"
    by simp
  then show ?case using dcs by simp
qed

lemma split_comma_join:
  "ts \<noteq> [] \<Longrightarrow> list_all (\<lambda>t. CHR '','' \<notin> set t) ts \<Longrightarrow> split_comma (join '', '' ts) = ts"
proof (induction "'', ''" ts rule: join.induct)
  case 1
  then show ?case by simp
next
  case (2 x)
  then show ?case by (simp add: split_comma_plain)
next
  case (3 x y ys)
  then have "split_comma (join '', '' (y # ys)) = y # ys" by simp
  moreover from "3.prems" have "CHR '','' \<notin> set x" by simp
  ultimately show ?case
    using split_comma_append [of x "join '', '' (y # ys)"] by simp
qed

lemma int_seq_join: "xs \<noteq> [] \<Longrightarrow> int_seq (join '', '' (map str_int xs))"
proof -
  assume "xs \<noteq> []"
  then have "split_comma (join '', '' (map str_int xs)) = map str_int xs"
    by (intro split_comma_join) (simp_all add: list_all_iff str_int_no_comma)
  then show ?thesis
    by (simp add: int_seq_def list_all_iff is_int_text_str_int)
qed

lemma join_no_LF: "list_all (\<lambda>t. LF \<notin> set t) ts \<Longrightarrow> LF \<notin> set (join '', '' ts)"
  by (induction "'', ''" ts rule: join.induct) (auto simp: LF_def)

section \<open>The shape of a printed line\<close>

lemma res_split:
  "res inp = (''-d '' @ name inp @ '' ['') @ join '', '' (map str_int (shape_of inp)) @ '']''"
  by (simp add: res_def str_list_def)

lemma res_no_LF: "LF \<notin> set (name inp) \<Longrightarrow> LF \<notin> set (res inp)"
proof -
  assume nm: "LF \<notin> set (name inp)"
  have "LF \<notin> set (join '', '' (map str_int (shape_of inp)))"
    by (rule join_no_LF) (simp add: list_all_iff str_int_no_LF)
  with nm show ?thesis by (auto simp: res_split LF_def)
qed

lemma matches_pattern_opt_built:
  "body = [] \<or> int_seq body \<Longrightarrow>
     matches_pattern_opt nm ((''-d '' @ nm @ '' ['') @ body @ '']'')"
  unfolding matches_pattern_opt_def Let_def
  by (simp add: butlast_append)

lemma matches_pattern_built:
  "int_seq body \<Longrightarrow> matches_pattern nm ((''-d '' @ nm @ '' ['') @ body @ '']'')"
  unfolding matches_pattern_def Let_def
  by (simp add: butlast_append)

lemma res_matches_opt: "matches_pattern_opt (name inp) (res inp)"
proof (cases "shape_of inp = []")
  case True
  then show ?thesis
    unfolding res_split by (intro matches_pattern_opt_built) simp
next
  case False
  then show ?thesis
    unfolding res_split by (intro matches_pattern_opt_built) (simp add: int_seq_join)
qed

lemma res_matches: "shape_of inp \<noteq> [] \<Longrightarrow> matches_pattern (name inp) (res inp)"
  unfolding res_split by (intro matches_pattern_built) (simp add: int_seq_join)

lemma res_empty_shape: "shape_of inp = [] \<Longrightarrow> res inp = ''-d '' @ name inp @ '' []''"
  by (simp add: res_def str_list_def)

section \<open>Reading the integers back\<close>

lemma digit_val_digit: "d < 10 \<Longrightarrow> digit_val (digit d) = d"
proof -
  assume "d < 10"
  then have "d \<in> {0, 1, 2, 3, 4, 5, 6, 7, 8, 9}" by auto
  then show ?thesis by (auto simp: digit_def digit_val_def)
qed

lemma nat_of_text_str_nat: "nat_of_text (str_nat n) = n"
proof (induction n rule: str_nat.induct)
  case (1 n)
  show ?case
  proof (cases "n < 10")
    case True
    then show ?thesis
      by (subst str_nat.simps) (simp add: nat_of_text_def digit_val_digit)
  next
    case False
    then have "nat_of_text (str_nat (n div 10)) = n div 10"
      using "1" by simp
    then have "nat_of_text (str_nat (n div 10) @ [digit (n mod 10)]) =
        10 * (n div 10) + n mod 10"
      by (simp add: nat_of_text_def digit_val_digit)
    then show ?thesis
      using False by (subst str_nat.simps) simp
  qed
qed

lemma int_of_text_str_int: "int_of_text (str_int i) = i"
proof (cases "i < 0")
  case True
  then show ?thesis
    by (simp add: str_int_def int_of_text_def nat_of_text_str_nat)
next
  case False
  obtain c cs where ccs: "str_nat (nat i) = c # cs"
    using str_nat_nonempty [of "nat i"] by (cases "str_nat (nat i)") auto
  have "is_digit c"
    using str_nat_digits [of "nat i"] ccs by simp
  then have "c \<noteq> CHR ''-''"
    by (rule is_digit_not_minus)
  then have "int_of_text (str_nat (nat i)) = int (nat_of_text (str_nat (nat i)))"
    using ccs by (simp add: int_of_text_def)
  then show ?thesis
    using False by (simp add: str_int_def nat_of_text_str_nat)
qed

lemma str_int_nonempty: "str_int i \<noteq> []"
  by (simp add: str_int_def str_nat_nonempty)

lemma join_nonempty: "xs \<noteq> [] \<Longrightarrow> join '', '' (map str_int xs) \<noteq> []"
proof (cases xs)
  case Nil
  then show "xs \<noteq> [] \<Longrightarrow> ?thesis" by simp
next
  case (Cons x ys)
  then show ?thesis by (cases ys) (simp_all add: str_int_nonempty)
qed

lemma line_integers_built:
  "line_integers nm ((''-d '' @ nm @ '' ['') @ join '', '' (map str_int xs) @ '']'') = xs"
proof (cases "xs = []")
  case True
  then show ?thesis
    unfolding line_integers_def Let_def by (simp add: butlast_append)
next
  case False
  then have "split_comma (join '', '' (map str_int xs)) = map str_int xs"
    by (intro split_comma_join) (simp_all add: list_all_iff str_int_no_comma)
  then have "map int_of_text (split_comma (join '', '' (map str_int xs))) = xs"
    by (simp add: comp_def int_of_text_str_int)
  then show ?thesis
    using join_nonempty [OF False]
    unfolding line_integers_def Let_def by (simp add: butlast_append)
qed

lemma sint_dim_value:
  "sint (dim_value d) = (case d of Dim_value v \<Rightarrow> sint v | Dim_param s \<Rightarrow> 0 | Dim_not_set \<Rightarrow> 0)"
  by (cases d) simp_all

lemma shape_of_cases:
  "shape_of inp =
     map (\<lambda>d. case d of Dim_value v \<Rightarrow> sint v | Dim_param s \<Rightarrow> 0 | Dim_not_set \<Rightarrow> 0)
       (dim (shape (tensor_type (type inp))))"
  by (simp add: shape_of_def sint_dim_value)

section \<open>What a load reads\<close>

lemma load_external_data_cong:
  "list_all (\<lambda>q. fs1 q = fs2 q) qs \<Longrightarrow> load_external_data fs1 qs = load_external_data fs2 qs"
  by (induction qs) (simp_all split: option.splits entry.splits)

lemma onnx_load_cong:
  assumes "list_all (\<lambda>q. fs1 q = fs2 q) (files_read decode fs1 p)"
  shows "onnx_load decode fs1 p = onnx_load decode fs2 p"
proof -
  from assms have same: "fs1 p = fs2 p"
    by (simp add: files_read_def)
  show ?thesis
  proof (cases "fs1 p")
    case None
    with same show ?thesis by (simp add: onnx_load_def)
  next
    case (Some e)
    show ?thesis
    proof (cases e)
      case Unreadable
      with Some same show ?thesis by (simp add: onnx_load_def)
    next
      case (Regular bs)
      show ?thesis
      proof (cases "decode p bs")
        case None
        with Some Regular same show ?thesis by (simp add: onnx_load_def)
      next
        case (Some mx)
        obtain m ext where mx: "mx = (m, ext)" by (cases mx)
        from assms \<open>fs1 p = Some e\<close> Regular Some mx
        have "list_all (\<lambda>q. fs1 q = fs2 q) ext"
          by (simp add: files_read_def)
        then have "load_external_data fs1 ext = load_external_data fs2 ext"
          by (rule load_external_data_cong)
        with \<open>fs1 p = Some e\<close> Regular Some mx same show ?thesis
          by (simp add: onnx_load_def)
      qed
    qed
  qed
qed

section \<open>What a run leaves untouched\<close>

lemma main_frame:
  "files (snd (main decode argparse argv st)) = files st \<and>
   world (snd (main decode argparse argv st)) = world st"
  by (simp add: main_def print_inputs_closed split: parse_result.splits sum.splits)

lemma run_files: "files (snd (run decode argparse argv fs w)) = fs"
  using main_frame [of decode argparse argv "start fs w"] by (simp add: run_def start_def)

lemma run_parser_exit:
  "parse_args argparse argv = Parser_exit status out err \<Longrightarrow>
     run decode argparse argv fs w =
       (status, \<lparr>files = fs, stdout = out, stderr = err, model = None, world = w\<rparr>)"
  by (simp add: run_def start_def main_def)

section \<open>The examples, evaluated\<close>

lemma demo_parse: "parse_args demo_argparse [''m.onnx''] = Namespace ''m.onnx''"
  by (simp add: parse_args_def option_like_def)

lemma demo_load: "onnx_load demo_decode demo_files ''m.onnx'' =
    Inr (model_with ''demo'' [image_input, mask_input])"
  by (simp add: onnx_load_def demo_files_def demo_decode_def)

lemma demo_inputs: "input (graph (model_with producer inps)) = inps"
  by (simp add: graph_def model_with_def)

lemma demo_dims: "dim (shape (tensor_type (type (tensor_input nm ds)))) = ds"
  by (simp add: tensor_input_def type_def shape_def)

lemma demo_name: "name (tensor_input nm ds) = nm"
  by (simp add: tensor_input_def)

lemma str_int_0: "str_int 0 = ''0''"
  by (simp add: str_int_def str_nat.simps digit_def)

section \<open>Runs that end before the loop\<close>

text \<open>
  Claim C6. Started with no command-line argument, the program ends with a status other
  than 0 (it is 2), the parser's usage error is what it prints, on standard error, and
  nothing is written on standard output, so no \<^verbatim>\<open>-d\<close> line.
\<close>

theorem no_arguments_usage_error:
  "fst (run decode argparse [] fs w) = 2 \<and>
   stdout (snd (run decode argparse [] fs w)) = [] \<and>
   stderr (snd (run decode argparse [] fs w)) =
     [Usage_error ''the following arguments are required: onnxfile'']"
  by (simp add: run_def start_def main_def parse_args_def)

text \<open>
  Claim C5. When the path argument names a file that does not exist, that cannot be
  read, or whose bytes the decoder refuses, the load raises, nothing catches it: the
  status is 1, standard output stays empty and the traceback of the load's exception is
  the one thing on standard error.
\<close>

theorem load_failure_exit:
  assumes "parse_args argparse argv = Namespace p"
    and "fs p = None \<or> fs p = Some Unreadable \<or>
         (\<exists>bs. fs p = Some (Regular bs) \<and> decode p bs = None)"
  shows "fst (run decode argparse argv fs w) = 1 \<and>
         stdout (snd (run decode argparse argv fs w)) = [] \<and>
         (\<exists>e. onnx_load decode fs p = Inl e \<and>
              stderr (snd (run decode argparse argv fs w)) = [Traceback e])"
proof -
  from assms(2) obtain e where e: "onnx_load decode fs p = Inl e"
    by (auto simp: onnx_load_def)
  show ?thesis
    using run_load_failure [OF assms(1) e, of w] e by simp
qed

theorem load_failure_exit_witness:
  "parse_args demo_argparse [''nothing.onnx''] = Namespace ''nothing.onnx'' \<and>
   demo_files ''nothing.onnx'' = None \<and>
   fst (run demo_decode demo_argparse [''nothing.onnx''] demo_files ()) = 1 \<and>
   stdout (snd (run demo_decode demo_argparse [''nothing.onnx''] demo_files ())) = [] \<and>
   parse_args demo_argparse [''locked.onnx''] = Namespace ''locked.onnx'' \<and>
   demo_files ''locked.onnx'' = Some Unreadable \<and>
   fst (run demo_decode demo_argparse [''locked.onnx''] demo_files ()) = 1 \<and>
   stdout (snd (run demo_decode demo_argparse [''locked.onnx''] demo_files ())) = [] \<and>
   parse_args demo_argparse [''junk.onnx''] = Namespace ''junk.onnx'' \<and>
   demo_files ''junk.onnx'' = Some (Regular [255]) \<and> demo_decode ''junk.onnx'' [255] = None \<and>
   fst (run demo_decode demo_argparse [''junk.onnx''] demo_files ()) = 1 \<and>
   stdout (snd (run demo_decode demo_argparse [''junk.onnx''] demo_files ())) = []"
proof -
  have p1: "parse_args demo_argparse [''nothing.onnx''] = Namespace ''nothing.onnx''"
    and p2: "parse_args demo_argparse [''locked.onnx''] = Namespace ''locked.onnx''"
    and p3: "parse_args demo_argparse [''junk.onnx''] = Namespace ''junk.onnx''"
    by (simp_all add: parse_args_def option_like_def)
  have f1: "demo_files ''nothing.onnx'' = None"
    and f2: "demo_files ''locked.onnx'' = Some Unreadable"
    and f3: "demo_files ''junk.onnx'' = Some (Regular [255])"
    by (simp_all add: demo_files_def)
  have d3: "demo_decode ''junk.onnx'' [255] = None"
    by (simp add: demo_decode_def)
  have h1: "demo_files ''nothing.onnx'' = None \<or> demo_files ''nothing.onnx'' = Some Unreadable \<or>
      (\<exists>bs. demo_files ''nothing.onnx'' = Some (Regular bs) \<and>
            demo_decode ''nothing.onnx'' bs = None)"
    using f1 by simp
  have h2: "demo_files ''locked.onnx'' = None \<or> demo_files ''locked.onnx'' = Some Unreadable \<or>
      (\<exists>bs. demo_files ''locked.onnx'' = Some (Regular bs) \<and>
            demo_decode ''locked.onnx'' bs = None)"
    using f2 by simp
  have h3: "demo_files ''junk.onnx'' = None \<or> demo_files ''junk.onnx'' = Some Unreadable \<or>
      (\<exists>bs. demo_files ''junk.onnx'' = Some (Regular bs) \<and>
            demo_decode ''junk.onnx'' bs = None)"
    using f3 d3 by simp
  show ?thesis
    using p1 p2 p3 f1 f2 f3 d3
      load_failure_exit [where fs = demo_files and decode = demo_decode and w = "()", OF p1 h1]
      load_failure_exit [where fs = demo_files and decode = demo_decode and w = "()", OF p2 h2]
      load_failure_exit [where fs = demo_files and decode = demo_decode and w = "()", OF p3 h3]
    by simp
qed

section \<open>Runs that reach the loop\<close>

text \<open>
  Claim C4. When the model that was loaded declares no graph input, the loop body never
  runs: standard output stays empty (no line at all) and the status is 0.
\<close>

theorem zero_inputs_no_output:
  assumes "parse_args argparse argv = Namespace p"
    and "onnx_load decode fs p = Inr m"
    and "input (graph m) = []"
  shows "fst (run decode argparse argv fs w) = 0 \<and>
         stdout (snd (run decode argparse argv fs w)) = [] \<and>
         text_lines (stdout (snd (run decode argparse argv fs w))) = []"
  using run_success [OF assms(1,2), of w] assms(3) by simp

theorem zero_inputs_no_output_witness:
  "parse_args demo_argparse [''empty.onnx''] = Namespace ''empty.onnx'' \<and>
   onnx_load demo_decode demo_files ''empty.onnx'' = Inr (model_with ''demo'' []) \<and>
   input (graph (model_with ''demo'' [])) = [] \<and>
   fst (run demo_decode demo_argparse [''empty.onnx''] demo_files ()) = 0 \<and>
   stdout (snd (run demo_decode demo_argparse [''empty.onnx''] demo_files ())) = []"
proof -
  have a: "parse_args demo_argparse [''empty.onnx''] = Namespace ''empty.onnx''"
    by (simp add: parse_args_def option_like_def)
  have b: "onnx_load demo_decode demo_files ''empty.onnx'' = Inr (model_with ''demo'' [])"
    by (simp add: onnx_load_def demo_files_def demo_decode_def)
  have c: "input (graph (model_with ''demo'' [])) = []"
    by (simp add: demo_inputs)
  show ?thesis
    using a b c zero_inputs_no_output [OF a b c, of "()"] by simp
qed

text \<open>
  Claim C1, as amended. For a model that loads and declares N graph inputs, none of whose
  names holds a line feed, standard output has exactly N lines: the line of each input,
  in the order of the model's input list.
\<close>

theorem one_line_per_input:
  assumes "parse_args argparse argv = Namespace p"
    and "onnx_load decode fs p = Inr m"
    and "list_all (\<lambda>i. LF \<notin> set (name i)) (input (graph m))"
  shows "text_lines (stdout (snd (run decode argparse argv fs w))) = map res (input (graph m)) \<and>
         length (text_lines (stdout (snd (run decode argparse argv fs w)))) =
           length (input (graph m))"
proof -
  have out: "stdout (snd (run decode argparse argv fs w)) =
      concat (map (\<lambda>l. l @ [LF]) (map res (input (graph m))))"
    using run_success [OF assms(1,2), of w] by (simp add: comp_def)
  have "list_all (\<lambda>l. LF \<notin> set l) (map res (input (graph m)))"
    using assms(3) by (simp add: list_all_iff res_no_LF)
  then have "text_lines (stdout (snd (run decode argparse argv fs w))) =
      map res (input (graph m))"
    unfolding out by (rule text_lines_records)
  then show ?thesis by simp
qed

theorem one_line_per_input_witness:
  "parse_args demo_argparse [''m.onnx''] = Namespace ''m.onnx'' \<and>
   onnx_load demo_decode demo_files ''m.onnx'' = Inr (model_with ''demo'' [image_input, mask_input]) \<and>
   list_all (\<lambda>i. LF \<notin> set (name i)) (input (graph (model_with ''demo'' [image_input, mask_input]))) \<and>
   text_lines (stdout (snd (run demo_decode demo_argparse [''m.onnx''] demo_files ()))) =
     [''-d input [1, 3, 224, 224]'', ''-d mask [0, 7, 0]'']"
proof -
  have c: "list_all (\<lambda>i. LF \<notin> set (name i))
      (input (graph (model_with ''demo'' [image_input, mask_input])))"
    by (simp add: demo_inputs image_input_def mask_input_def demo_name LF_def)
  have r1: "res image_input = ''-d input [1, 3, 224, 224]''"
    by (simp add: res_def image_input_def shape_of_def demo_dims demo_name str_list_def
        str_int_def str_nat.simps digit_def)
  have r2: "res mask_input = ''-d mask [0, 7, 0]''"
    by (simp add: res_def mask_input_def shape_of_def demo_dims demo_name str_list_def
        str_int_def str_nat.simps digit_def)
  show ?thesis
    using demo_parse demo_load c r1 r2
      one_line_per_input [OF demo_parse demo_load c, of "()"]
    by (simp add: demo_inputs)
qed

text \<open>
  The claim as written, for every model that loads, fails where a name holds a line feed:
  the one input of this model comes out on two lines.
\<close>

theorem one_line_per_input_counterexample:
  "parse_args demo_argparse [''odd.onnx''] = Namespace ''odd.onnx'' \<and>
   onnx_load demo_decode demo_files ''odd.onnx'' = Inr (model_with ''demo'' [two_line_input]) \<and>
   length (input (graph (model_with ''demo'' [two_line_input]))) = 1 \<and>
   fst (run demo_decode demo_argparse [''odd.onnx''] demo_files ()) = 0 \<and>
   text_lines (stdout (snd (run demo_decode demo_argparse [''odd.onnx''] demo_files ()))) =
     [''-d a'', ''b [1]''] \<and>
   length (text_lines (stdout (snd (run demo_decode demo_argparse [''odd.onnx''] demo_files ()))))
     \<noteq> length (input (graph (model_with ''demo'' [two_line_input])))"
proof -
  have a: "parse_args demo_argparse [''odd.onnx''] = Namespace ''odd.onnx''"
    by (simp add: parse_args_def option_like_def)
  have b: "onnx_load demo_decode demo_files ''odd.onnx'' = Inr (model_with ''demo'' [two_line_input])"
    by (simp add: onnx_load_def demo_files_def demo_decode_def)
  have r: "res two_line_input = ''-d a'' @ LF # ''b [1]''"
    by (simp add: res_def two_line_input_def shape_of_def demo_dims demo_name str_list_def
        str_int_def str_nat.simps digit_def)
  have "text_lines ((''-d a'' @ LF # ''b [1]'') @ [LF]) = [''-d a'', ''b [1]'']"
    by (simp add: LF_def)
  then show ?thesis
    using a b r run_success [OF a b, of "()"] by (simp add: demo_inputs)
qed

text \<open>
  Claim C2. When the first declared input is named \<^verbatim>\<open>input\<close> and the dimensions of its
  tensor-type shape are 1, 3, 224, 224, the first line on standard output is exactly
  \<^verbatim>\<open>-d input [1, 3, 224, 224]\<close>.
\<close>

theorem first_line_example:
  assumes "parse_args argparse argv = Namespace p"
    and "onnx_load decode fs p = Inr m"
    and "input (graph m) = inp # rest"
    and "name inp = ''input''"
    and "map dim_value (dim (shape (tensor_type (type inp)))) = [1, 3, 224, 224]"
  shows "text_lines (stdout (snd (run decode argparse argv fs w))) \<noteq> [] \<and>
         hd (text_lines (stdout (snd (run decode argparse argv fs w)))) =
           ''-d input [1, 3, 224, 224]''"
proof -
  have "map sint (map dim_value (dim (shape (tensor_type (type inp))))) =
      map sint [1, 3, 224, 224 :: 64 word]"
    using assms(5) by simp
  then have sh: "shape_of inp = [1, 3, 224, 224]"
    by (simp add: shape_of_def comp_def)
  have r: "res inp = ''-d input [1, 3, 224, 224]''"
    by (simp add: res_def sh assms(4) str_list_def str_int_def str_nat.simps digit_def)
  have out: "stdout (snd (run decode argparse argv fs w)) =
      ''-d input [1, 3, 224, 224]'' @ LF # concat (map (\<lambda>i. res i @ [LF]) rest)"
    using run_success [OF assms(1,2), of w] assms(3) r by simp
  have "LF \<notin> set ''-d input [1, 3, 224, 224]''"
    by (simp add: LF_def)
  then have "text_lines (stdout (snd (run decode argparse argv fs w))) =
      ''-d input [1, 3, 224, 224]'' # text_lines (concat (map (\<lambda>i. res i @ [LF]) rest))"
    unfolding out by (rule text_lines_append)
  then show ?thesis by simp
qed

theorem first_line_example_witness:
  "parse_args demo_argparse [''m.onnx''] = Namespace ''m.onnx'' \<and>
   onnx_load demo_decode demo_files ''m.onnx'' = Inr (model_with ''demo'' [image_input, mask_input]) \<and>
   input (graph (model_with ''demo'' [image_input, mask_input])) = image_input # [mask_input] \<and>
   name image_input = ''input'' \<and>
   map dim_value (dim (shape (tensor_type (type image_input)))) = [1, 3, 224, 224] \<and>
   hd (text_lines (stdout (snd (run demo_decode demo_argparse [''m.onnx''] demo_files ())))) =
     ''-d input [1, 3, 224, 224]''"
proof -
  have c: "input (graph (model_with ''demo'' [image_input, mask_input])) = image_input # [mask_input]"
    by (simp add: demo_inputs)
  have d: "name image_input = ''input''"
    by (simp add: image_input_def demo_name)
  have e: "map dim_value (dim (shape (tensor_type (type image_input)))) = [1, 3, 224, 224]"
    by (simp add: image_input_def demo_dims)
  show ?thesis
    using demo_parse demo_load c d e
      first_line_example [OF demo_parse demo_load c d e, of "()"]
    by simp
qed

text \<open>
  Claim C3, as amended. For a model that loads and none of whose input names holds a line
  feed, standard output has one line for each declared input, and the line at the
  position of an input is \<^verbatim>\<open>-d <name> [\<close>, then the decimal integers of the dimensions of
  its shape, in their order and separated by \<^verbatim>\<open>", "\<close>, then \<^verbatim>\<open>]\<close>. Read back, the line
  gives exactly these integers. It matches \<^verbatim>\<open>-d <name> [<int>(, <int>)*]\<close> when the shape
  has one dimension or more, and it is \<^verbatim>\<open>-d <name> []\<close> when the shape has none.
\<close>

theorem emitted_line_form:
  assumes "parse_args argparse argv = Namespace p"
    and "onnx_load decode fs p = Inr m"
    and "list_all (\<lambda>i. LF \<notin> set (name i)) (input (graph m))"
    and "k < length (input (graph m))"
    and "inp = input (graph m) ! k"
    and "line = text_lines (stdout (snd (run decode argparse argv fs w))) ! k"
    and "ints = map (\<lambda>d. case d of Dim_value v \<Rightarrow> sint v | Dim_param s \<Rightarrow> 0 | Dim_not_set \<Rightarrow> 0)
                  (dim (shape (tensor_type (type inp))))"
  shows "length (text_lines (stdout (snd (run decode argparse argv fs w)))) =
           length (input (graph m)) \<and>
         line = ''-d '' @ name inp @ '' ['' @ join '', '' (map str_int ints) @ '']'' \<and>
         matches_pattern_opt (name inp) line \<and>
         line_integers (name inp) line = ints \<and>
         (if ints = [] then line = ''-d '' @ name inp @ '' []''
          else matches_pattern (name inp) line)"
proof -
  have out: "stdout (snd (run decode argparse argv fs w)) =
      concat (map (\<lambda>l. l @ [LF]) (map res (input (graph m))))"
    using run_success [OF assms(1,2), of w] by (simp add: comp_def)
  have "list_all (\<lambda>l. LF \<notin> set l) (map res (input (graph m)))"
    using assms(3) by (simp add: list_all_iff res_no_LF)
  then have ls: "text_lines (stdout (snd (run decode argparse argv fs w))) =
      map res (input (graph m))"
    unfolding out by (rule text_lines_records)
  have line: "line = res inp"
    using assms(4,5,6) ls by simp
  have sh: "shape_of inp = ints"
    using assms(7) by (simp add: shape_of_cases)
  have form: "line = (''-d '' @ name inp @ '' ['') @ join '', '' (map str_int ints) @ '']''"
    using line sh by (simp add: res_split)
  have ints_back: "line_integers (name inp) line = ints"
    unfolding form by (rule line_integers_built)
  have pat: "if ints = [] then line = ''-d '' @ name inp @ '' []''
      else matches_pattern (name inp) line"
    using line sh res_matches [of inp] res_empty_shape [of inp] by simp
  show ?thesis
    using ls form ints_back pat line res_matches_opt [of inp] by simp
qed

theorem emitted_line_form_witness:
  "parse_args demo_argparse [''m.onnx''] = Namespace ''m.onnx'' \<and>
   onnx_load demo_decode demo_files ''m.onnx'' = Inr (model_with ''demo'' [image_input, mask_input]) \<and>
   list_all (\<lambda>i. LF \<notin> set (name i)) (input (graph (model_with ''demo'' [image_input, mask_input]))) \<and>
   (1::nat) < length (input (graph (model_with ''demo'' [image_input, mask_input]))) \<and>
   mask_input = input (graph (model_with ''demo'' [image_input, mask_input])) ! 1 \<and>
   [0, 7, 0] = map (\<lambda>d. case d of Dim_value v \<Rightarrow> sint v | Dim_param s \<Rightarrow> 0 | Dim_not_set \<Rightarrow> 0)
                 (dim (shape (tensor_type (type mask_input)))) \<and>
   text_lines (stdout (snd (run demo_decode demo_argparse [''m.onnx''] demo_files ()))) ! 1 =
     ''-d mask [0, 7, 0]'' \<and>
   matches_pattern ''mask'' ''-d mask [0, 7, 0]'' \<and>
   line_integers ''mask'' ''-d mask [0, 7, 0]'' = [0, 7, 0]"
proof -
  have c: "list_all (\<lambda>i. LF \<notin> set (name i))
      (input (graph (model_with ''demo'' [image_input, mask_input])))"
    by (simp add: demo_inputs image_input_def mask_input_def demo_name LF_def)
  have k: "(1::nat) < length (input (graph (model_with ''demo'' [image_input, mask_input])))"
    by (simp add: demo_inputs)
  have i: "mask_input = input (graph (model_with ''demo'' [image_input, mask_input])) ! 1"
    by (simp add: demo_inputs)
  have d: "[0, 7, 0] =
      map (\<lambda>d. case d of Dim_value v \<Rightarrow> sint v | Dim_param s \<Rightarrow> 0 | Dim_not_set \<Rightarrow> 0)
        (dim (shape (tensor_type (type mask_input))))"
    by (simp add: mask_input_def demo_dims)
  have n: "name mask_input = ''mask''"
    by (simp add: mask_input_def demo_name)
  note form = emitted_line_form [OF demo_parse demo_load c k i refl d, of "()"]
  have l: "text_lines (stdout (snd (run demo_decode demo_argparse [''m.onnx''] demo_files ()))) ! 1 =
      ''-d mask [0, 7, 0]''"
    using form [THEN conjunct2, THEN conjunct1]
    by (simp add: n str_int_def str_nat.simps digit_def)
  have mp: "matches_pattern ''mask'' ''-d mask [0, 7, 0]''"
    using form [THEN conjunct2, THEN conjunct2, THEN conjunct2, THEN conjunct2, unfolded l n]
    by simp
  have li: "line_integers ''mask'' ''-d mask [0, 7, 0]'' = [0, 7, 0]"
    using form [THEN conjunct2, THEN conjunct2, THEN conjunct2, THEN conjunct1, unfolded l n]
    by simp
  show ?thesis
    by (intro conjI demo_parse demo_load c k i d l mp li)
qed

text \<open>
  The claim as written also asks for one integer or more in the case of a shape with no
  dimension. There the line is \<^verbatim>\<open>-d x []\<close>, which the pattern does not match. And where
  a name holds a line feed, the input's text is spread over two lines, neither of which
  has the form at all.
\<close>

theorem line_pattern_counterexample:
  "parse_args demo_argparse [''scalar.onnx''] = Namespace ''scalar.onnx'' \<and>
   onnx_load demo_decode demo_files ''scalar.onnx'' = Inr (model_with ''demo'' [scalar_input]) \<and>
   name scalar_input = ''x'' \<and>
   fst (run demo_decode demo_argparse [''scalar.onnx''] demo_files ()) = 0 \<and>
   stdout (snd (run demo_decode demo_argparse [''scalar.onnx''] demo_files ())) = ''-d x []'' @ [LF] \<and>
   \<not> matches_pattern ''x'' ''-d x []'' \<and>
   onnx_load demo_decode demo_files ''odd.onnx'' = Inr (model_with ''demo'' [two_line_input]) \<and>
   text_lines (stdout (snd (run demo_decode demo_argparse [''odd.onnx''] demo_files ()))) =
     [''-d a'', ''b [1]''] \<and>
   \<not> matches_pattern_opt (name two_line_input) ''-d a'' \<and>
   \<not> matches_pattern_opt (name two_line_input) ''b [1]''"
proof -
  have a: "parse_args demo_argparse [''scalar.onnx''] = Namespace ''scalar.onnx''"
    by (simp add: parse_args_def option_like_def)
  have b: "onnx_load demo_decode demo_files ''scalar.onnx'' = Inr (model_with ''demo'' [scalar_input])"
    by (simp add: onnx_load_def demo_files_def demo_decode_def)
  have r: "res scalar_input = ''-d x []''"
    by (simp add: res_def scalar_input_def shape_of_def demo_dims demo_name str_list_def)
  have n: "\<not> matches_pattern ''x'' ''-d x []''"
    by (simp add: matches_pattern_def int_seq_def is_int_text_def)
  have a2: "parse_args demo_argparse [''odd.onnx''] = Namespace ''odd.onnx''"
    by (simp add: parse_args_def option_like_def)
  have b2: "onnx_load demo_decode demo_files ''odd.onnx'' = Inr (model_with ''demo'' [two_line_input])"
    by (simp add: onnx_load_def demo_files_def demo_decode_def)
  have r2: "res two_line_input = ''-d a'' @ LF # ''b [1]''"
    by (simp add: res_def two_line_input_def shape_of_def demo_dims demo_name str_list_def
        str_int_def str_nat.simps digit_def)
  have t2: "text_lines ((''-d a'' @ LF # ''b [1]'') @ [LF]) = [''-d a'', ''b [1]'']"
    by (simp add: LF_def)
  have n2: "\<not> matches_pattern_opt (name two_line_input) ''-d a''"
    and n3: "\<not> matches_pattern_opt (name two_line_input) ''b [1]''"
    by (simp_all add: matches_pattern_opt_def two_line_input_def demo_name)
  show ?thesis
    using a b r n b2 r2 t2 n2 n3 run_success [OF a b, of "()"] run_success [OF a2 b2, of "()"]
    by (simp add: demo_inputs scalar_input_def demo_name)
qed

text \<open>
  Claim C9. A dimension that is symbolic or not set does not stop the run: the getter
  gives 0, the conversion takes it, and the text printed at that position of the input's
  shape is \<^verbatim>\<open>0\<close>; the run ends with status 0 after printing every input's line.
\<close>

theorem symbolic_dim_prints_zero:
  assumes "parse_args argparse argv = Namespace p"
    and "onnx_load decode fs p = Inr m"
    and "inp \<in> set (input (graph m))"
    and "k < length (dim (shape (tensor_type (type inp))))"
    and "dim (shape (tensor_type (type inp))) ! k = Dim_param s \<or>
         dim (shape (tensor_type (type inp))) ! k = Dim_not_set"
  shows "fst (run decode argparse argv fs w) = 0 \<and>
         stdout (snd (run decode argparse argv fs w)) =
           concat (map (\<lambda>i. res i @ [LF]) (input (graph m))) \<and>
         res inp = ''-d '' @ name inp @ '' ['' @ join '', '' (map str_int (shape_of inp)) @ '']'' \<and>
         length (shape_of inp) = length (dim (shape (tensor_type (type inp)))) \<and>
         shape_of inp ! k = 0 \<and>
         map str_int (shape_of inp) ! k = ''0''"
proof -
  have "dim_value (dim (shape (tensor_type (type inp))) ! k) = 0"
    using assms(5) by auto
  then have z: "shape_of inp ! k = 0"
    using assms(4) by (simp add: shape_of_def)
  have len: "length (shape_of inp) = length (dim (shape (tensor_type (type inp))))"
    by (simp add: shape_of_def)
  then have "map str_int (shape_of inp) ! k = ''0''"
    using assms(4) z by (simp add: str_int_0)
  then show ?thesis
    using run_success [OF assms(1,2), of w] z len by (simp add: res_def str_list_def)
qed

theorem symbolic_dim_prints_zero_witness:
  "parse_args demo_argparse [''m.onnx''] = Namespace ''m.onnx'' \<and>
   onnx_load demo_decode demo_files ''m.onnx'' = Inr (model_with ''demo'' [image_input, mask_input]) \<and>
   mask_input \<in> set (input (graph (model_with ''demo'' [image_input, mask_input]))) \<and>
   dim (shape (tensor_type (type mask_input))) ! 0 = Dim_param ''batch'' \<and>
   dim (shape (tensor_type (type mask_input))) ! 2 = Dim_not_set \<and>
   fst (run demo_decode demo_argparse [''m.onnx''] demo_files ()) = 0 \<and>
   map str_int (shape_of mask_input) ! 0 = ''0'' \<and>
   map str_int (shape_of mask_input) ! 2 = ''0'' \<and>
   res mask_input = ''-d mask [0, 7, 0]''"
proof -
  have c: "mask_input \<in> set (input (graph (model_with ''demo'' [image_input, mask_input])))"
    by (simp add: demo_inputs)
  have k0: "0 < length (dim (shape (tensor_type (type mask_input))))"
    and k2: "2 < length (dim (shape (tensor_type (type mask_input))))"
    by (simp_all add: mask_input_def demo_dims)
  have d0: "dim (shape (tensor_type (type mask_input))) ! 0 = Dim_param ''batch''"
    and d2: "dim (shape (tensor_type (type mask_input))) ! 2 = Dim_not_set"
    by (simp_all add: mask_input_def demo_dims)
  have h0: "dim (shape (tensor_type (type mask_input))) ! 0 = Dim_param ''batch'' \<or>
      dim (shape (tensor_type (type mask_input))) ! 0 = Dim_not_set"
    using d0 by simp
  have h2: "dim (shape (tensor_type (type mask_input))) ! 2 = Dim_param ''batch'' \<or>
      dim (shape (tensor_type (type mask_input))) ! 2 = Dim_not_set"
    using d2 by simp
  have r: "res mask_input = ''-d mask [0, 7, 0]''"
    by (simp add: res_def mask_input_def shape_of_def demo_dims demo_name str_list_def
        str_int_def str_nat.simps digit_def)
  show ?thesis
    using demo_parse demo_load c d0 d2 r
      symbolic_dim_prints_zero [OF demo_parse demo_load c k0 h0, of "()"]
      symbolic_dim_prints_zero [OF demo_parse demo_load c k2 h2, of "()"]
    by simp
qed

section \<open>What the output depends on\<close>

lemma same_name_and_dims_res: "same_name_and_dims a b \<Longrightarrow> res a = res b"
proof -
  assume ab: "same_name_and_dims a b"
  have "list_all2 (\<lambda>d e. sint (dim_value d) = sint (dim_value e)) ds es \<Longrightarrow>
      map (\<lambda>d. sint (dim_value d)) ds = map (\<lambda>d. sint (dim_value d)) es" for ds es
    by (induction ds es rule: list_all2_induct) simp_all
  with ab have "shape_of a = shape_of b"
    by (simp add: same_name_and_dims_def shape_of_def)
  moreover from ab have "name a = name b"
    by (simp add: same_name_and_dims_def)
  ultimately show ?thesis by (simp add: res_def)
qed

lemma same_inputs_same_records:
  "list_all2 same_name_and_dims xs ys \<Longrightarrow>
     concat (map (\<lambda>i. res i @ [LF]) xs) = concat (map (\<lambda>i. res i @ [LF]) ys)"
  by (induction xs ys rule: list_all2_induct) (simp_all add: same_name_and_dims_res)

text \<open>
  Claim C10. Two models that load and whose input lists agree, position by position, on
  the name and on every dimension's integer value give the same standard output, whatever
  else they hold and whatever file, decoder or argument list they came from.
\<close>

theorem output_depends_on_inputs_only:
  assumes "parse_args argparse1 argv1 = Namespace p1"
    and "onnx_load decode1 fs1 p1 = Inr m1"
    and "parse_args argparse2 argv2 = Namespace p2"
    and "onnx_load decode2 fs2 p2 = Inr m2"
    and "list_all2 same_name_and_dims (input (graph m1)) (input (graph m2))"
  shows "stdout (snd (run decode1 argparse1 argv1 fs1 w1)) =
         stdout (snd (run decode2 argparse2 argv2 fs2 w2))"
  using run_success [OF assms(1,2), of w1] run_success [OF assms(3,4), of w2]
    same_inputs_same_records [OF assms(5)]
  by simp

theorem output_depends_on_inputs_only_witness:
  "parse_args demo_argparse [''m.onnx''] = Namespace ''m.onnx'' \<and>
   onnx_load demo_decode demo_files ''m.onnx'' = Inr (model_with ''demo'' [image_input, mask_input]) \<and>
   parse_args demo_argparse [''m2.onnx''] = Namespace ''m2.onnx'' \<and>
   onnx_load demo_decode demo_files ''m2.onnx'' =
     Inr (model_with ''other''
       [tensor_input ''input'' [Dim_value 1, Dim_value 3, Dim_value 224, Dim_value 224],
        tensor_input ''mask'' [Dim_not_set, Dim_value 7, Dim_param ''n'']]) \<and>
   model_with ''demo'' [image_input, mask_input] \<noteq>
     model_with ''other''
       [tensor_input ''input'' [Dim_value 1, Dim_value 3, Dim_value 224, Dim_value 224],
        tensor_input ''mask'' [Dim_not_set, Dim_value 7, Dim_param ''n'']] \<and>
   stdout (snd (run demo_decode demo_argparse [''m.onnx''] demo_files ())) =
   stdout (snd (run demo_decode demo_argparse [''m2.onnx''] demo_files ()))"
proof -
  have a2: "parse_args demo_argparse [''m2.onnx''] = Namespace ''m2.onnx''"
    by (simp add: parse_args_def option_like_def)
  have b2: "onnx_load demo_decode demo_files ''m2.onnx'' =
     Inr (model_with ''other''
       [tensor_input ''input'' [Dim_value 1, Dim_value 3, Dim_value 224, Dim_value 224],
        tensor_input ''mask'' [Dim_not_set, Dim_value 7, Dim_param ''n'']])"
    by (simp add: onnx_load_def demo_files_def demo_decode_def)
  have c: "list_all2 same_name_and_dims
      (input (graph (model_with ''demo'' [image_input, mask_input])))
      (input (graph (model_with ''other''
       [tensor_input ''input'' [Dim_value 1, Dim_value 3, Dim_value 224, Dim_value 224],
        tensor_input ''mask'' [Dim_not_set, Dim_value 7, Dim_param ''n'']])))"
    by (simp add: demo_inputs same_name_and_dims_def image_input_def mask_input_def
        demo_dims demo_name)
  have d: "model_with ''demo'' [image_input, mask_input] \<noteq>
     model_with ''other''
       [tensor_input ''input'' [Dim_value 1, Dim_value 3, Dim_value 224, Dim_value 224],
        tensor_input ''mask'' [Dim_not_set, Dim_value 7, Dim_param ''n'']]"
    by (simp add: model_with_def)
  show ?thesis
    using demo_parse demo_load a2 b2 d
      output_depends_on_inputs_only [OF demo_parse demo_load a2 b2 c, of "()" "()"]
    by simp
qed

text \<open>
  Claim C7, as amended. Two runs with the same arguments on the same model file write the
  same bytes on standard output and end with the same status whenever the files that the
  load opens, the model file and the external data files of its tensors, are the same in
  both runs; nothing else of the file system or of the world has a part in the output.
\<close>

theorem same_files_read_same_output:
  assumes "parse_args argparse argv = Namespace p"
    and "list_all (\<lambda>q. fs1 q = fs2 q) (files_read decode fs1 p)"
  shows "stdout (snd (run decode argparse argv fs1 w1)) =
           stdout (snd (run decode argparse argv fs2 w2)) \<and>
         fst (run decode argparse argv fs1 w1) = fst (run decode argparse argv fs2 w2)"
proof -
  have same: "onnx_load decode fs1 p = onnx_load decode fs2 p"
    using assms(2) by (rule onnx_load_cong)
  show ?thesis
  proof (cases "onnx_load decode fs1 p")
    case (Inl e)
    then have "onnx_load decode fs2 p = Inl e" using same by simp
    then show ?thesis
      using run_load_failure [OF assms(1) Inl, of w1] run_load_failure [OF assms(1), of decode fs2 e w2]
      by simp
  next
    case (Inr m)
    then have "onnx_load decode fs2 p = Inr m" using same by simp
    then show ?thesis
      using run_success [OF assms(1) Inr, of w1] run_success [OF assms(1), of decode fs2 m w2]
      by simp
  qed
qed

theorem same_files_read_same_output_witness:
  "parse_args demo_argparse [''ext.onnx''] = Namespace ''ext.onnx'' \<and>
   files_read demo_decode (demo_files(''w.bin'' \<mapsto> Regular [0])) ''ext.onnx'' = [''ext.onnx'', ''w.bin''] \<and>
   list_all (\<lambda>q. (demo_files(''w.bin'' \<mapsto> Regular [0])) q =
                 (demo_files(''w.bin'' \<mapsto> Regular [0], ''junk.onnx'' := None, ''new.onnx'' \<mapsto> Unreadable)) q)
     (files_read demo_decode (demo_files(''w.bin'' \<mapsto> Regular [0])) ''ext.onnx'') \<and>
   demo_files(''w.bin'' \<mapsto> Regular [0]) \<noteq>
     demo_files(''w.bin'' \<mapsto> Regular [0], ''junk.onnx'' := None, ''new.onnx'' \<mapsto> Unreadable) \<and>
   stdout (snd (run demo_decode demo_argparse [''ext.onnx'']
     (demo_files(''w.bin'' \<mapsto> Regular [0])) False)) =
   stdout (snd (run demo_decode demo_argparse [''ext.onnx'']
     (demo_files(''w.bin'' \<mapsto> Regular [0], ''junk.onnx'' := None, ''new.onnx'' \<mapsto> Unreadable)) True))"
proof -
  have a: "parse_args demo_argparse [''ext.onnx''] = Namespace ''ext.onnx''"
    by (simp add: parse_args_def option_like_def)
  have r: "files_read demo_decode (demo_files(''w.bin'' \<mapsto> Regular [0])) ''ext.onnx'' =
      [''ext.onnx'', ''w.bin'']"
    by (simp add: files_read_def demo_files_def demo_decode_def)
  have b: "list_all (\<lambda>q. (demo_files(''w.bin'' \<mapsto> Regular [0])) q =
        (demo_files(''w.bin'' \<mapsto> Regular [0], ''junk.onnx'' := None, ''new.onnx'' \<mapsto> Unreadable)) q)
      (files_read demo_decode (demo_files(''w.bin'' \<mapsto> Regular [0])) ''ext.onnx'')"
    unfolding r by simp
  have "(demo_files(''w.bin'' \<mapsto> Regular [0])) ''new.onnx'' \<noteq>
      (demo_files(''w.bin'' \<mapsto> Regular [0], ''junk.onnx'' := None, ''new.onnx'' \<mapsto> Unreadable)) ''new.onnx''"
    by (simp add: demo_files_def)
  then have c: "demo_files(''w.bin'' \<mapsto> Regular [0]) \<noteq>
      demo_files(''w.bin'' \<mapsto> Regular [0], ''junk.onnx'' := None, ''new.onnx'' \<mapsto> Unreadable)"
    by metis
  show ?thesis
    using a r b c
      same_files_read_same_output [where decode = demo_decode and ?w1.0 = False and ?w2.0 = True
        and ?fs1.0 = "demo_files(''w.bin'' \<mapsto> Regular [0])"
        and ?fs2.0 = "demo_files(''w.bin'' \<mapsto> Regular [0], ''junk.onnx'' := None,
                        ''new.onnx'' \<mapsto> Unreadable)",
        OF a b]
    by simp
qed

text \<open>
  The claim as written makes the output a function of the content of the model file. The
  load also opens the external data files of the model: with the same model file, the run
  that finds \<^verbatim>\<open>w.bin\<close> prints the input's line and ends with status 0, the run that does
  not prints nothing and ends with status 1.
\<close>

theorem same_files_read_same_output_counterexample:
  "(demo_files(''w.bin'' \<mapsto> Regular [0])) ''ext.onnx'' = demo_files ''ext.onnx'' \<and>
   fst (run demo_decode demo_argparse [''ext.onnx''] (demo_files(''w.bin'' \<mapsto> Regular [0])) ()) = 0 \<and>
   stdout (snd (run demo_decode demo_argparse [''ext.onnx''] (demo_files(''w.bin'' \<mapsto> Regular [0])) ())) =
     ''-d input [1, 3, 224, 224]'' @ [LF] \<and>
   fst (run demo_decode demo_argparse [''ext.onnx''] demo_files ()) = 1 \<and>
   stdout (snd (run demo_decode demo_argparse [''ext.onnx''] demo_files ())) = []"
proof -
  have a: "parse_args demo_argparse [''ext.onnx''] = Namespace ''ext.onnx''"
    by (simp add: parse_args_def option_like_def)
  have l1: "onnx_load demo_decode (demo_files(''w.bin'' \<mapsto> Regular [0])) ''ext.onnx'' =
      Inr (model_with ''demo'' [image_input])"
    by (simp add: onnx_load_def demo_files_def demo_decode_def)
  have l2: "onnx_load demo_decode demo_files ''ext.onnx'' = Inl (ExternalDataError ''w.bin'')"
    by (simp add: onnx_load_def demo_files_def demo_decode_def)
  have r: "res image_input = ''-d input [1, 3, 224, 224]''"
    by (simp add: res_def image_input_def shape_of_def demo_dims demo_name str_list_def
        str_int_def str_nat.simps digit_def)
  show ?thesis
    using run_success [OF a l1, of "()"] run_load_failure [OF a l2, of "()"] r
    by (simp add: demo_inputs)
qed

section \<open>The effects of a run\<close>

text \<open>
  Claim C8, as amended. A run changes nothing but the two standard streams, to which it
  only appends: the files and the rest of the world are as before, the variable
  \<^verbatim>\<open>model\<close> is either untouched or holds exactly what the load returned, and a run that
  loads its model writes on standard output alone. What reaches standard error is the
  diagnostic of a run that the parser or the load ends.
\<close>

theorem standard_streams_only:
  "files (snd (main decode argparse argv st)) = files st \<and>
   world (snd (main decode argparse argv st)) = world st \<and>
   (\<exists>out. stdout (snd (main decode argparse argv st)) = stdout st @ out) \<and>
   (\<exists>err. stderr (snd (main decode argparse argv st)) = stderr st @ err) \<and>
   (model (snd (main decode argparse argv st)) = model st \<or>
    (\<exists>p m. parse_args argparse argv = Namespace p \<and> onnx_load decode (files st) p = Inr m \<and>
           model (snd (main decode argparse argv st)) = Some m)) \<and>
   (\<forall>p m. parse_args argparse argv = Namespace p \<longrightarrow> onnx_load decode (files st) p = Inr m \<longrightarrow>
           stderr (snd (main decode argparse argv st)) = stderr st)"
proof (cases "parse_args argparse argv")
  case (Parser_exit status out err)
  then show ?thesis by (simp add: main_def)
next
  case (Namespace p)
  show ?thesis
  proof (cases "onnx_load decode (files st) p")
    case (Inl e)
    then show ?thesis
      using Namespace by (simp add: main_load_failure [OF Namespace Inl])
  next
    case (Inr m)
    then show ?thesis
      using Namespace by (simp add: main_success [OF Namespace Inr])
  qed
qed

theorem standard_streams_only_witness:
  "parse_args demo_argparse [''m.onnx''] = Namespace ''m.onnx'' \<and>
   onnx_load demo_decode (files (start demo_files ())) ''m.onnx'' =
     Inr (model_with ''demo'' [image_input, mask_input]) \<and>
   files (snd (main demo_decode demo_argparse [''m.onnx''] (start demo_files ()))) = demo_files \<and>
   stderr (snd (main demo_decode demo_argparse [''m.onnx''] (start demo_files ()))) = []"
proof -
  have l: "onnx_load demo_decode (files (start demo_files ())) ''m.onnx'' =
      Inr (model_with ''demo'' [image_input, mask_input])"
    using demo_load by (simp add: start_def)
  show ?thesis
    using demo_parse l
      standard_streams_only [of demo_decode demo_argparse "[''m.onnx'']" "start demo_files ()"]
    by (simp add: start_def)
qed

text \<open>
  The claim as written has standard output as the one thing a run, any run, writes to.
  A run without arguments and a run on a missing file write nothing there and put their
  diagnostic on standard error.
\<close>

theorem standard_streams_only_counterexample:
  "stdout (snd (run demo_decode demo_argparse [] demo_files ())) = stdout (start demo_files ()) \<and>
   stderr (snd (run demo_decode demo_argparse [] demo_files ())) \<noteq> stderr (start demo_files ()) \<and>
   stdout (snd (run demo_decode demo_argparse [''nothing.onnx''] demo_files ())) =
     stdout (start demo_files ()) \<and>
   stderr (snd (run demo_decode demo_argparse [''nothing.onnx''] demo_files ())) \<noteq>
     stderr (start demo_files ())"
proof -
  have a: "parse_args demo_argparse [''nothing.onnx''] = Namespace ''nothing.onnx''"
    by (simp add: parse_args_def option_like_def)
  have b: "onnx_load demo_decode demo_files ''nothing.onnx'' = Inl (FileNotFoundError ''nothing.onnx'')"
    by (simp add: onnx_load_def demo_files_def)
  have c: "parse_args demo_argparse [] =
      Parser_exit 2 [] [Usage_error ''the following arguments are required: onnxfile'']"
    by (simp add: parse_args_def)
  show ?thesis
    using run_load_failure [OF a b, of "()"] run_parser_exit [OF c, of demo_decode demo_files "()"]
    by (simp add: start_def)
qed

end
